theory Spec2Isabelle
  imports Main
begin

section \<open>GPT-J tensor-parallel layer policy (oslo/models/gptj/configuration_gptj.py)\<close>

subsection \<open>Errors\<close>

text \<open>
  Python exceptions that the modelled code can raise, as values. \<open>ZeroDivisionError\<close> is
  what the floor division \<^verbatim>\<open>//\<close> raises on a zero divisor.
\<close>

datatype error = ZeroDivisionError | ShapeError | ConfigurationError

subsection \<open>Module classes\<close>

text \<open>
  The classes the policy names: \<^verbatim>\<open>nn.Linear\<close>, \<^verbatim>\<open>nn.Embedding\<close> and
  \<^verbatim>\<open>nn.LayerNorm\<close> of torch, the three parallel modules imported from \<^verbatim>\<open>oslo\<close>, and the
  classes of \<^verbatim>\<open>oslo.models.gptj.modeling_gptj\<close>.
\<close>

datatype module_class =
    Linear | Embedding | LayerNorm
  | ColumnParallelLinear | RowParallelLinear | VocabParallelEmbedding
  | GPTJAttention | GPTJMLP | FusedGPTJAttention | FusedGPTJMLP | GPTJBlock

subsection \<open>GPTJConfig\<close>

text \<open>
  The integer, boolean and string attributes that \<^verbatim>\<open>GPTJConfig.__init__\<close> stores. Python
  integers are unbounded, hence \<open>int\<close>. The float attributes (the three dropout rates,
  \<^verbatim>\<open>layer_norm_epsilon\<close>, \<^verbatim>\<open>initializer_range\<close>) are read by no policy method and are
  left out.
\<close>

record GPTJConfig =
  vocab_size :: int
  n_positions :: int
  n_embd :: int
  n_layer :: int
  n_head :: int
  n_inner :: "int option"
  rotary_dim :: int
  activation_function :: string
  scale_attn_weights :: bool
  use_cache :: bool
  bos_token_id :: int
  eos_token_id :: int

text \<open>The defaults of \<^verbatim>\<open>GPTJConfig.__init__\<close> (the GPT-J 6B architecture).\<close>

definition GPTJConfig_init :: GPTJConfig where
  "GPTJConfig_init =
     \<lparr>vocab_size = 50400, n_positions = 2048, n_embd = 4096, n_layer = 28, n_head = 16,
      n_inner = None, rotary_dim = 64, activation_function = ''gelu_new'',
      scale_attn_weights = True, use_cache = True,
      bos_token_id = 50256, eos_token_id = 50256\<rparr>"

text \<open>
  \<^verbatim>\<open>attribute_map\<close>: reading \<^verbatim>\<open>config.hidden_size\<close> reads \<^verbatim>\<open>n_embd\<close>, and so on for the
  other three aliases.
\<close>

definition hidden_size :: "GPTJConfig \<Rightarrow> int" where
  "hidden_size config = n_embd config"

definition num_attention_heads_of :: "GPTJConfig \<Rightarrow> int" where
  "num_attention_heads_of config = n_head config"

definition max_position_embeddings :: "GPTJConfig \<Rightarrow> int" where
  "max_position_embeddings config = n_positions config"

definition num_hidden_layers :: "GPTJConfig \<Rightarrow> int" where
  "num_hidden_layers config = n_layer config"

subsection \<open>The module tree the policy reads\<close>

text \<open>
  A torch module with parameters (\<^verbatim>\<open>nn.Linear\<close>, \<^verbatim>\<open>nn.Embedding\<close>, \<^verbatim>\<open>nn.LayerNorm\<close>):
  its class, its \<^verbatim>\<open>weight\<close> and its \<^verbatim>\<open>bias\<close>, which is \<^verbatim>\<open>None\<close> for a linear layer built
  with \<^verbatim>\<open>bias=False\<close>. The policy only passes tensors on, so the tensor type \<open>'t\<close> is left
  open. The fields are prefixed because the descriptor below has attributes of the same
  names.
\<close>

record 't nn_module =
  m_class :: module_class
  m_weight :: 't
  m_bias :: "'t option"

text \<open>
  The attributes of a GPT-J attention module, MLP, block and model that the policy reads
  or writes. \<open>attn_bias\<close> and \<open>masked_bias\<close> are the buffers \<^verbatim>\<open>attn.bias\<close> and
  \<^verbatim>\<open>attn.masked_bias\<close>.
\<close>

record 't gptj_attention =
  embed_dim :: int
  num_attention_heads :: int
  q_proj :: "'t nn_module"
  k_proj :: "'t nn_module"
  v_proj :: "'t nn_module"
  out_proj :: "'t nn_module"
  attn_bias :: 't
  masked_bias :: 't

record 't gptj_mlp =
  fc_in :: "'t nn_module"
  fc_out :: "'t nn_module"

record 't gptj_block =
  ln_1 :: "'t nn_module"
  attn :: "'t gptj_attention"
  mlp :: "'t gptj_mlp"

record 't gptj_model =
  wte :: "'t nn_module"
  h :: "'t gptj_block list"
  ln_f :: "'t nn_module"

subsection \<open>GPTJLayerPolicy.reduce_arguments\<close>

text \<open>
  \<^verbatim>\<open>
  def reduce_arguments(layer, world_size, config):
      layer.attn.embed_dim = config.hidden_size // world_size
      layer.attn.num_attention_heads = config.n_head // world_size
  \<close>
  The block is mutated in place; the model returns the block after the call. Python's
  \<^verbatim>\<open>//\<close> on integers rounds towards minus infinity, as \<open>div\<close> on \<open>int\<close> does, and raises
  on a zero divisor; the first line raises before anything is assigned.
\<close>

definition reduce_arguments ::
  "'t gptj_block \<Rightarrow> int \<Rightarrow> GPTJConfig \<Rightarrow> error + 't gptj_block" where
  "reduce_arguments layer world_size config =
     (if world_size = 0 then Inl ZeroDivisionError
      else Inr (layer\<lparr>attn := (attn layer)
                  \<lparr>embed_dim := hidden_size config div world_size,
                   num_attention_heads := n_head config div world_size\<rparr>\<rparr>))"

text \<open>
  Calling \<^verbatim>\<open>reduce_arguments\<close> a second time on the same block object, with the same
  arguments: the second call sees the block as the first call left it. An exception in
  the first call propagates.
\<close>

definition reduce_arguments_twice ::
  "'t gptj_block \<Rightarrow> int \<Rightarrow> GPTJConfig \<Rightarrow> error + 't gptj_block" where
  "reduce_arguments_twice layer world_size config =
     (case reduce_arguments layer world_size config of
        Inl e \<Rightarrow> Inl e
      | Inr layer' \<Rightarrow> reduce_arguments layer' world_size config)"

subsection \<open>GPTJLayerPolicy.fused_modules, original_layer_class\<close>

text \<open>
  The dictionary literal that \<^verbatim>\<open>fused_modules\<close> returns, as an association list in the
  order of the literal; \<open>map_of\<close> is the lookup.
\<close>

definition fused_modules :: "(module_class \<times> module_class) list" where
  "fused_modules = [(GPTJAttention, FusedGPTJAttention), (GPTJMLP, FusedGPTJMLP)]"

definition original_layer_class :: module_class where
  "original_layer_class = GPTJBlock"

subsection \<open>The Layer descriptor\<close>

text \<open>
  Modelled from the spec: the class \<^verbatim>\<open>Layer\<close> of \<^verbatim>\<open>oslo.parallelism.mpu\<close> is imported
  by the policy and is not among the sources. The spec gives its fields: the owning
  module, the weight tensor, the optional bias tensor, the partition flag (a boolean,
  default true: split across devices; false: replicate identically on every device) and an
  optional type-substitution mapping from the old module kind to the new parallel one.
  A keyword the policy does not pass is \<open>None\<close>, and \<open>parallel\<close> keeps its default.
\<close>

record 't Layer =
  module :: "'t nn_module option"
  weight :: "'t option"
  bias :: "'t option"
  replace :: "(module_class \<times> module_class) list option"
  parallel :: bool

definition Layer_init :: "'t Layer" where
  "Layer_init = \<lparr>module = None, weight = None, bias = None, replace = None, parallel = True\<rparr>"

subsection \<open>The descriptor lists of GPTJLayerPolicy\<close>

text \<open>
  Each method builds its descriptors with keyword arguments; the model writes them as
  updates of \<open>Layer_init\<close>, one per keyword, in the order of the source. \<open>config\<close> is
  an argument of every method and is read by none.
\<close>

definition attn_qkv :: "'t gptj_block \<Rightarrow> GPTJConfig \<Rightarrow> 't Layer list" where
  "attn_qkv layer config =
     [Layer_init\<lparr>module := Some (q_proj (attn layer)),
                 weight := Some (m_weight (q_proj (attn layer))),
                 replace := Some [(Linear, ColumnParallelLinear)]\<rparr>,
      Layer_init\<lparr>module := Some (k_proj (attn layer)),
                 weight := Some (m_weight (k_proj (attn layer))),
                 replace := Some [(Linear, ColumnParallelLinear)]\<rparr>,
      Layer_init\<lparr>module := Some (v_proj (attn layer)),
                 weight := Some (m_weight (v_proj (attn layer))),
                 replace := Some [(Linear, ColumnParallelLinear)]\<rparr>]"

definition attn_out :: "'t gptj_block \<Rightarrow> GPTJConfig \<Rightarrow> 't Layer list" where
  "attn_out layer config =
     [Layer_init\<lparr>module := Some (out_proj (attn layer)),
                 weight := Some (m_weight (out_proj (attn layer))),
                 replace := Some [(Linear, RowParallelLinear)]\<rparr>]"

definition attn_norm :: "'t gptj_block \<Rightarrow> GPTJConfig \<Rightarrow> 't Layer list" where
  "attn_norm layer config =
     [Layer_init\<lparr>module := Some (ln_1 layer),
                 weight := Some (m_weight (ln_1 layer)),
                 bias := m_bias (ln_1 layer),
                 parallel := False\<rparr>]"

definition mlp_in :: "'t gptj_block \<Rightarrow> GPTJConfig \<Rightarrow> 't Layer list" where
  "mlp_in layer config =
     [Layer_init\<lparr>module := Some (fc_in (mlp layer)),
                 weight := Some (m_weight (fc_in (mlp layer))),
                 bias := m_bias (fc_in (mlp layer)),
                 replace := Some [(Linear, ColumnParallelLinear)]\<rparr>]"

definition mlp_out :: "'t gptj_block \<Rightarrow> GPTJConfig \<Rightarrow> 't Layer list" where
  "mlp_out layer config =
     [Layer_init\<lparr>module := Some (fc_out (mlp layer)),
                 weight := Some (m_weight (fc_out (mlp layer))),
                 bias := m_bias (fc_out (mlp layer)),
                 replace := Some [(Linear, RowParallelLinear)]\<rparr>]"

definition word_embedding :: "'t gptj_model \<Rightarrow> GPTJConfig \<Rightarrow> 't Layer list" where
  "word_embedding model config =
     [Layer_init\<lparr>module := Some (wte model),
                 weight := Some (m_weight (wte model)),
                 replace := Some [(Embedding, VocabParallelEmbedding)]\<rparr>]"

definition block_layers :: "'t gptj_model \<Rightarrow> GPTJConfig \<Rightarrow> 't gptj_block list" where
  "block_layers model config = h model"

definition postblock_layers :: "'t gptj_model \<Rightarrow> GPTJConfig \<Rightarrow> 't Layer list" where
  "postblock_layers model config =
     [Layer_init\<lparr>module := Some (ln_f model),
                 weight := Some (m_weight (ln_f model)),
                 bias := m_bias (ln_f model),
                 parallel := False\<rparr>]"

definition copy_to_all :: "'t gptj_block \<Rightarrow> GPTJConfig \<Rightarrow> 't Layer list" where
  "copy_to_all layer config =
     [Layer_init\<lparr>bias := Some (attn_bias (attn layer)), parallel := False\<rparr>,
      Layer_init\<lparr>bias := Some (masked_bias (attn layer)), parallel := False\<rparr>]"

subsection \<open>A concrete block and model\<close>

text \<open>
  A GPT-J block and a one-block model as \<^verbatim>\<open>GPTJModel(GPTJConfig())\<close> builds them, with
  tensors named by their path: the four attention projections have no bias, the MLP
  projections and the layer norms have one.
\<close>

definition gptj_block_0 :: "string gptj_block" where
  "gptj_block_0 =
     \<lparr>ln_1 = \<lparr>m_class = LayerNorm, m_weight = ''h.0.ln_1.weight'',
              m_bias = Some ''h.0.ln_1.bias''\<rparr>,
      attn = \<lparr>embed_dim = 4096, num_attention_heads = 16,
              q_proj = \<lparr>m_class = Linear, m_weight = ''h.0.attn.q_proj.weight'', m_bias = None\<rparr>,
              k_proj = \<lparr>m_class = Linear, m_weight = ''h.0.attn.k_proj.weight'', m_bias = None\<rparr>,
              v_proj = \<lparr>m_class = Linear, m_weight = ''h.0.attn.v_proj.weight'', m_bias = None\<rparr>,
              out_proj = \<lparr>m_class = Linear, m_weight = ''h.0.attn.out_proj.weight'',
                          m_bias = None\<rparr>,
              attn_bias = ''h.0.attn.bias'', masked_bias = ''h.0.attn.masked_bias''\<rparr>,
      mlp = \<lparr>fc_in = \<lparr>m_class = Linear, m_weight = ''h.0.mlp.fc_in.weight'',
                       m_bias = Some ''h.0.mlp.fc_in.bias''\<rparr>,
             fc_out = \<lparr>m_class = Linear, m_weight = ''h.0.mlp.fc_out.weight'',
                        m_bias = Some ''h.0.mlp.fc_out.bias''\<rparr>\<rparr>\<rparr>"

definition gptj_model_0 :: "string gptj_model" where
  "gptj_model_0 =
     \<lparr>wte = \<lparr>m_class = Embedding, m_weight = ''wte.weight'', m_bias = None\<rparr>,
      h = [gptj_block_0],
      ln_f = \<lparr>m_class = LayerNorm, m_weight = ''ln_f.weight'', m_bias = Some ''ln_f.bias''\<rparr>\<rparr>"

section \<open>Column-parallel partitioning\<close>

text \<open>
  Modelled from the spec: \<^verbatim>\<open>ColumnParallelLinear\<close> is imported from \<^verbatim>\<open>oslo\<close> and its
  code is not among the sources. A dense linear operator has a weight with one row per
  output feature and an optional bias with one entry per output feature.
\<close>

record 'a dense_linear =
  lin_weight :: "'a list list"
  lin_bias :: "'a list option"

definition out_features :: "'a dense_linear \<Rightarrow> nat" where
  "out_features lin = length (lin_weight lin)"

text \<open>
  Modelled from the spec: the output-feature slice of a rank,
  \<^verbatim>\<open>[rank * (out_features / world_size), (rank+1) * (out_features / world_size))\<close>, a
  function of the shape, the world size and the rank alone. The world size is a positive
  integer and the rank is below it, hence \<open>nat\<close>.
\<close>

definition output_slice :: "nat \<Rightarrow> nat \<Rightarrow> nat \<Rightarrow> nat \<times> nat" where
  "output_slice n world_size rank =
     (rank * (n div world_size), (rank + 1) * (n div world_size))"

text \<open>
  Modelled from the spec: the entries of a list in a half-open index range, clipped to the
  list.
\<close>

definition slice :: "nat \<times> nat \<Rightarrow> 'a list \<Rightarrow> 'a list" where
  "slice bounds xs = take (snd bounds - fst bounds) (drop (fst bounds) xs)"

text \<open>
  Modelled from the spec: the weight rows that a rank holds, which is its column-parallel
  weight shard.
\<close>

definition column_shard :: "'a list list \<Rightarrow> nat \<Rightarrow> nat \<Rightarrow> 'a list list" where
  "column_shard w world_size rank = slice (output_slice (length w) world_size rank) w"

text \<open>
  Modelled from the spec: the construction of \<^verbatim>\<open>ColumnParallelLinear\<close> from a dense linear
  operator, a rank and a world size. It fails with a \<open>ShapeError\<close> if
  \<^verbatim>\<open>out_features % world_size != 0\<close>, a check made before any parameter is copied; a
  slice that would give a zero-sized shard is a configuration error; otherwise the
  weight-row slice, and the bias slice if there is a bias, are copied into a new operator.
  The dense operator is an argument only: no result changes it.
\<close>

definition column_parallel_linear ::
  "'a dense_linear \<Rightarrow> nat \<Rightarrow> nat \<Rightarrow> error + 'a dense_linear" where
  "column_parallel_linear lin rank world_size =
     (if out_features lin mod world_size \<noteq> 0 then Inl ShapeError
      else if column_shard (lin_weight lin) world_size rank = [] then Inl ConfigurationError
      else Inr \<lparr>lin_weight = column_shard (lin_weight lin) world_size rank,
                lin_bias = map_option (slice (output_slice (out_features lin) world_size rank))
                             (lin_bias lin)\<rparr>)"


section \<open>Properties of reduce_arguments\<close>

text \<open>
  C1: with \<^verbatim>\<open>hidden_size = 4096\<close>, \<^verbatim>\<open>num_attention_heads = 16\<close> and
  \<^verbatim>\<open>world_size = 4\<close>, \<^verbatim>\<open>reduce_arguments\<close> returns normally and leaves the block's attention
  module with \<^verbatim>\<open>embed_dim = 1024\<close> and \<^verbatim>\<open>num_attention_heads = 4\<close>.
\<close>

theorem reduce_arguments_world_size_4:
  assumes "hidden_size config = 4096" and "num_attention_heads_of config = 16"
  shows "\<exists>layer'. reduce_arguments layer 4 config = Inr layer'
           \<and> embed_dim (attn layer') = 1024 \<and> num_attention_heads (attn layer') = 4"
  using assms by (simp add: reduce_arguments_def num_attention_heads_of_def)

theorem reduce_arguments_world_size_4_witness:
  "hidden_size GPTJConfig_init = 4096 \<and> num_attention_heads_of GPTJConfig_init = 16
   \<and> (\<exists>layer'. reduce_arguments gptj_block_0 4 GPTJConfig_init = Inr layer'
           \<and> embed_dim (attn layer') = 1024 \<and> num_attention_heads (attn layer') = 4)"
proof -
  have a: "hidden_size GPTJConfig_init = 4096"
    by (simp add: hidden_size_def GPTJConfig_init_def)
  have b: "num_attention_heads_of GPTJConfig_init = 16"
    by (simp add: num_attention_heads_of_def GPTJConfig_init_def)
  show ?thesis
    using a b reduce_arguments_world_size_4 [OF a b, of gptj_block_0] by simp
qed

text \<open>
  C2, as amended: \<^verbatim>\<open>reduce_arguments\<close> is idempotent. For every block, world size and
  configuration, calling it a second time with the same arguments gives what calling it
  once gives: the same block state, both attributes being recomputed from the
  configuration, which no call changes, or the same \<open>ZeroDivisionError\<close> when the world
  size is zero.
\<close>

theorem reduce_arguments_twice_same:
  "reduce_arguments_twice layer world_size config = reduce_arguments layer world_size config"
  by (simp add: reduce_arguments_twice_def reduce_arguments_def)

text \<open>
  C2, as stated, fails: on the block of the default configuration with world size 4, the
  second call leaves the state of the first, \<^verbatim>\<open>embed_dim = 1024\<close> and
  \<^verbatim>\<open>num_attention_heads = 4\<close>.
\<close>

theorem reduce_arguments_twice_counterexample:
  "\<not> (reduce_arguments_twice gptj_block_0 4 GPTJConfig_init
        \<noteq> reduce_arguments gptj_block_0 4 GPTJConfig_init)
   \<and> reduce_arguments_twice gptj_block_0 4 GPTJConfig_init
       = Inr (gptj_block_0\<lparr>attn := (attn gptj_block_0)
                \<lparr>embed_dim := 1024, num_attention_heads := 4\<rparr>\<rparr>)"
  by (simp add: reduce_arguments_twice_def reduce_arguments_def hidden_size_def
      GPTJConfig_init_def)

text \<open>
  C9: for every block, every positive world size and every configuration,
  \<^verbatim>\<open>reduce_arguments\<close> returns normally and assigns the floor quotients
  \<^verbatim>\<open>hidden_size // world_size\<close> and \<^verbatim>\<open>n_head // world_size\<close>: the largest integers whose
  product with the world size does not exceed the dividend. Nothing is checked for
  divisibility, and the rest of the block is unchanged.
\<close>

theorem reduce_arguments_floor:
  assumes "0 < world_size"
  shows "\<exists>e n. reduce_arguments layer world_size config
               = Inr (layer\<lparr>attn := (attn layer)\<lparr>embed_dim := e, num_attention_heads := n\<rparr>\<rparr>)
           \<and> e = hidden_size config div world_size \<and> n = n_head config div world_size
           \<and> e * world_size \<le> hidden_size config \<and> hidden_size config < (e + 1) * world_size
           \<and> n * world_size \<le> n_head config \<and> n_head config < (n + 1) * world_size"
proof -
  have lower: "a div world_size * world_size \<le> a" for a
    using assms div_mult_mod_eq [of a world_size] pos_mod_sign [of world_size a] by linarith
  have upper: "a < (a div world_size + 1) * world_size" for a
  proof -
    have "a < a div world_size * world_size + world_size"
      using assms div_mult_mod_eq [of a world_size] pos_mod_bound [of world_size a]
      by linarith
    then show ?thesis by (simp add: algebra_simps)
  qed
  show ?thesis
    using assms lower upper by (simp add: reduce_arguments_def)
qed

theorem reduce_arguments_floor_witness:
  "(0 :: int) < 3 \<and> \<not> 3 dvd hidden_size GPTJConfig_init \<and> \<not> 3 dvd n_head GPTJConfig_init
   \<and> reduce_arguments gptj_block_0 3 GPTJConfig_init
       = Inr (gptj_block_0\<lparr>attn := (attn gptj_block_0)
                \<lparr>embed_dim := 1365, num_attention_heads := 5\<rparr>\<rparr>)"
  using reduce_arguments_floor [of 3 gptj_block_0 GPTJConfig_init]
  by (simp add: hidden_size_def GPTJConfig_init_def)

section \<open>Properties of the descriptor lists\<close>


text \<open>
  C4: for every block and model, the one descriptor of \<^verbatim>\<open>attn_norm\<close> (for \<^verbatim>\<open>ln_1\<close>), the
  one descriptor of \<^verbatim>\<open>postblock_layers\<close> (for \<^verbatim>\<open>ln_f\<close>) and the two descriptors of
  \<^verbatim>\<open>copy_to_all\<close> (for \<^verbatim>\<open>attn.bias\<close> and \<^verbatim>\<open>attn.masked_bias\<close>) all carry
  \<^verbatim>\<open>parallel=False\<close>, and every descriptor of the other five lists keeps the default
  \<^verbatim>\<open>parallel=True\<close>.
\<close>

theorem policy_parallel_flags:
  "map (\<lambda>d. (module d, parallel d)) (attn_norm layer config) = [(Some (ln_1 layer), False)]
   \<and> map (\<lambda>d. (module d, parallel d)) (postblock_layers model config)
       = [(Some (ln_f model), False)]
   \<and> map (\<lambda>d. (bias d, parallel d)) (copy_to_all layer config)
       = [(Some (attn_bias (attn layer)), False), (Some (masked_bias (attn layer)), False)]
   \<and> parallel (Layer_init :: 't Layer) = True
   \<and> map parallel (attn_qkv layer config) = [True, True, True]
   \<and> map parallel (attn_out layer config) = [True]
   \<and> map parallel (mlp_in layer config) = [True]
   \<and> map parallel (mlp_out layer config) = [True]
   \<and> map parallel (word_embedding model config) = [True]"
  by (simp add: attn_norm_def postblock_layers_def copy_to_all_def attn_qkv_def attn_out_def
      mlp_in_def mlp_out_def word_embedding_def Layer_init_def)

text \<open>
  C7: \<^verbatim>\<open>fused_modules()\<close> returns a mapping of exactly two entries: its keys are
  \<^verbatim>\<open>GPTJAttention\<close> and \<^verbatim>\<open>GPTJMLP\<close>, and it sends them to \<^verbatim>\<open>FusedGPTJAttention\<close> and
  \<^verbatim>\<open>FusedGPTJMLP\<close>.
\<close>

theorem fused_modules_mapping:
  "map_of fused_modules = [GPTJAttention \<mapsto> FusedGPTJAttention, GPTJMLP \<mapsto> FusedGPTJMLP]
   \<and> dom (map_of fused_modules) = {GPTJAttention, GPTJMLP}
   \<and> ran (map_of fused_modules) = {FusedGPTJAttention, FusedGPTJMLP}
   \<and> distinct (map fst fused_modules) \<and> length fused_modules = 2"
  by (auto simp add: fused_modules_def ran_def)

text \<open>
  C10: descriptors are partial records. For every block, each of the two descriptors of
  \<^verbatim>\<open>copy_to_all\<close> has a bias and neither a module nor a weight; for every block and model,
  each descriptor of \<^verbatim>\<open>attn_qkv\<close>, \<^verbatim>\<open>attn_out\<close> and \<^verbatim>\<open>word_embedding\<close> has a module and
  a weight and no bias.
\<close>

theorem policy_partial_descriptors:
  "map (\<lambda>d. (module d, weight d, bias d)) (copy_to_all layer config) =
     [(None, None, Some (attn_bias (attn layer))), (None, None, Some (masked_bias (attn layer)))]
   \<and> map (\<lambda>d. (module d, weight d, bias d)) (attn_qkv layer config) =
     [(Some (q_proj (attn layer)), Some (m_weight (q_proj (attn layer))), None),
      (Some (k_proj (attn layer)), Some (m_weight (k_proj (attn layer))), None),
      (Some (v_proj (attn layer)), Some (m_weight (v_proj (attn layer))), None)]
   \<and> map (\<lambda>d. (module d, weight d, bias d)) (attn_out layer config) =
     [(Some (out_proj (attn layer)), Some (m_weight (out_proj (attn layer))), None)]
   \<and> map (\<lambda>d. (module d, weight d, bias d)) (word_embedding model config) =
     [(Some (wte model), Some (m_weight (wte model)), None)]"
  by (simp add: copy_to_all_def attn_qkv_def attn_out_def word_embedding_def Layer_init_def)

section \<open>Properties of the column-parallel partitioning\<close>

text \<open>
  Consecutive blocks of \<open>k\<close> entries, \<open>n\<close> of them, make up a list of length \<open>k * n\<close>.
\<close>

lemma concat_take_drop:
  "length xs = k * n \<Longrightarrow> concat (map (\<lambda>r. take k (drop (r * k) xs)) [0..<n]) = xs"
proof (induction n arbitrary: xs)
  case 0
  then show ?case by simp
next
  case (Suc n)
  have len: "length (drop k xs) = k * n"
    using Suc.prems by simp
  have "concat (map (\<lambda>r. take k (drop (r * k) xs)) [0..<Suc n])
      = take k xs @ concat (map (\<lambda>r. take k (drop (Suc r * k) xs)) [0..<n])"
    by (simp add: upt_conv_Cons map_Suc_upt [symmetric] comp_def del: upt_Suc)
  also have "\<dots> = take k xs @ concat (map (\<lambda>r. take k (drop (r * k) (drop k xs))) [0..<n])"
    by (simp add: add.commute)
  also have "\<dots> = take k xs @ drop k xs"
    using Suc.IH [OF len] by simp
  finally show ?case by simp
qed

lemma column_shard_take_drop:
  "column_shard w world_size rank
     = take (length w div world_size) (drop (rank * (length w div world_size)) w)"
  by (simp add: column_shard_def slice_def output_slice_def)

text \<open>
  When the world size divides a positive number of output features, every rank below the
  world size holds a non-empty shard, and the construction returns it.
\<close>

lemma column_shard_nonempty:
  assumes "0 < out_features lin" and "out_features lin mod world_size = 0"
    and "rank < world_size"
  shows "column_shard (lin_weight lin) world_size rank \<noteq> []"
proof -
  let ?n = "length (lin_weight lin)"
  let ?k = "?n div world_size"
  have n: "?n = ?k * world_size"
    using assms(2) div_mult_mod_eq [of ?n world_size] by (simp add: out_features_def)
  have k: "0 < ?k"
    using assms(1) n by (cases "?k = 0") (simp_all add: out_features_def)
  have "Suc rank * ?k \<le> world_size * ?k"
    using assms(3) by (intro mult_le_mono1) simp
  then have "rank * ?k < ?n"
    using k n by (simp add: mult.commute)
  then show ?thesis
    using k by (simp add: column_shard_take_drop)
qed

lemma column_parallel_linear_shard:
  assumes "0 < out_features lin" and "out_features lin mod world_size = 0"
    and "rank < world_size"
  shows "column_parallel_linear lin rank world_size =
           Inr \<lparr>lin_weight = column_shard (lin_weight lin) world_size rank,
                lin_bias = map_option (slice (output_slice (out_features lin) world_size rank))
                             (lin_bias lin)\<rparr>"
  using column_shard_nonempty [OF assms] assms(2) by (simp add: column_parallel_linear_def)



text \<open>
  C6: for every weight and every world size with \<^verbatim>\<open>out_features % world_size == 0\<close>, the
  shards of the ranks \<open>0\<close> to \<open>world_size - 1\<close>, rank \<open>r\<close> holding the rows from
  \<open>r * (out_features / world_size)\<close> up to \<open>(r + 1) * (out_features / world_size)\<close>,
  concatenated in rank order, are the original weight.
\<close>

theorem column_shards_concat:
  assumes "out_features lin mod world_size = 0"
  shows "concat (map (column_shard (lin_weight lin) world_size) [0..<world_size])
           = lin_weight lin"
proof -
  let ?w = "lin_weight lin"
  let ?k = "length ?w div world_size"
  have "length ?w = ?k * world_size"
    using assms div_mult_mod_eq [of "length ?w" world_size] by (simp add: out_features_def)
  then have "concat (map (\<lambda>r. take ?k (drop (r * ?k) ?w)) [0..<world_size]) = ?w"
    by (rule concat_take_drop)
  moreover have "column_shard ?w world_size = (\<lambda>r. take ?k (drop (r * ?k) ?w))"
    by (rule ext) (rule column_shard_take_drop)
  ultimately show ?thesis by simp
qed

theorem column_shards_concat_witness:
  "out_features \<lparr>lin_weight = [[1, 2], [3, 4], [5, 6], [7, 8 :: int]], lin_bias = None\<rparr> mod 2 = 0
   \<and> column_shard [[1, 2], [3, 4], [5, 6], [7, 8 :: int]] 2 0 = [[1, 2], [3, 4]]
   \<and> column_shard [[1, 2], [3, 4], [5, 6], [7, 8 :: int]] 2 1 = [[5, 6], [7, 8]]
   \<and> concat (map (column_shard [[1, 2], [3, 4], [5, 6], [7, 8 :: int]] 2) [0..<2])
       = [[1, 2], [3, 4], [5, 6], [7, 8]]"
  using column_shards_concat
    [of "\<lparr>lin_weight = [[1, 2], [3, 4], [5, 6], [7, 8 :: int]], lin_bias = None\<rparr>" 2]
  by (simp add: out_features_def column_shard_def slice_def output_slice_def)

end
